theory Spec2Isabelle
  imports Main "HOL-Library.Word"
begin

section \<open>Data model\<close>

text \<open>
  Go's \<open>[]byte\<close> and \<open>string\<close> are both byte sequences; both are \<open>char list\<close> here
  (a \<open>char\<close> is one byte), so that \<open>[]byte(s)\<close> is \<open>s\<close> itself.
\<close>

type_synonym bytes = string

text \<open>
  Go errors are values. \<open>ErrNotExist\<close> is the sentinel \<open>minify.ErrNotExist\<close> that
  \<open>minifyOthers\<close> compares against; \<open>Error msg\<close> is \<open>errors.New(msg)\<close> and any error of a
  collaborator; \<open>Panic msg\<close> marks the one place of the model where the Go code would
  panic (a nil reader handed to \<open>io.Copy\<close>).
\<close>

datatype error = ErrNotExist | Error string | Panic string

subsection \<open>Slices\<close>

text \<open>
  A Go slice is a window on a backing array: \<open>elems\<close> are the \<open>len\<close> visible elements,
  \<open>spare\<close> the rest of the backing array up to the capacity. \<open>s[:0]\<close> keeps the backing
  array and shows none of it; \<open>append\<close> writes into the spare capacity when there is
  some, and otherwise moves to a new array (modelled with no spare room).
\<close>

datatype 'a slice = Slice (elems: "'a list") (spare: "'a list")

definition slice_len :: "'a slice \<Rightarrow> nat" where
  "slice_len s = length (elems s)"

definition slice_cap :: "'a slice \<Rightarrow> nat" where
  "slice_cap s = length (elems s) + length (spare s)"

definition slice0 :: "'a slice \<Rightarrow> 'a slice" where
  "slice0 s = Slice [] (elems s @ spare s)"

fun append_slice :: "'a slice \<Rightarrow> 'a \<Rightarrow> 'a slice" where
  "append_slice (Slice es []) x = Slice (es @ [x]) []"
| "append_slice (Slice es (y # sp)) x = Slice (es @ [x]) sp"

subsection \<open>Headers\<close>

text \<open>
  \<open>http.Header\<close> is \<open>map[string][]string\<close>. Every key the code uses is already in
  canonical form, so keys are compared as written.
\<close>

type_synonym header = "string \<Rightarrow> string list option"

definition Header_Get :: "header \<Rightarrow> string \<Rightarrow> string" where
  "Header_Get h k = (case h k of Some (v # vs) \<Rightarrow> v | _ \<Rightarrow> [])"

definition Header_Set :: "string \<Rightarrow> string \<Rightarrow> header \<Rightarrow> header" where
  "Header_Set k v h = h(k \<mapsto> [v])"

definition Header_Del :: "string \<Rightarrow> header \<Rightarrow> header" where
  "Header_Del k h = h(k := None)"

subsection \<open>The standard library's request and response writer\<close>

text \<open>
  \<open>*http.Request\<close>, as far as the code reads and writes it.
\<close>

record HTTPRequest =
  rMethod :: string
  rHost :: string
  rHeader :: header

text \<open>
  The \<open>http.ResponseWriter\<close> that net/http hands to \<open>ServeHTTP\<close> (\<open>rw\<close>, kept by the
  Response as \<open>ohrw\<close>) is outside the repository. It is modelled by what the code
  does to it: \<open>calls\<close> records every \<open>WriteHeader\<close> and \<open>Write\<close> it receives, in order;
  \<open>broken\<close> says that the connection fails every write; \<open>wheader\<close> is the header map
  it comes with.
\<close>

datatype wcall = WWriteHeader int | WWrite bytes

record wire =
  calls :: "wcall list"
  broken :: bool
  wheader :: header

definition w_WriteHeader :: "int \<Rightarrow> wire \<Rightarrow> wire" where
  "w_WriteHeader status w = w\<lparr>calls := calls w @ [WWriteHeader status]\<rparr>"

definition w_Write :: "bytes \<Rightarrow> wire \<Rightarrow> (nat \<times> error option) \<times> wire" where
  "w_Write b w =
     (if broken w then ((0, Some (Error ''write failed'')), w)
      else ((length b, None), w\<lparr>calls := calls w @ [WWrite b]\<rparr>))"

subsection \<open>Request, Response and the framework instance\<close>

type_synonym ptr = nat

datatype Once = Once (fired: bool)

type_synonym RequestParam = "string \<times> string list"

text \<open>
  The declaration of \<open>Request\<close> is not among the sources; its fields are the ones
  \<open>ServeHTTP\<close> resets and \<open>Response.Write\<close> reads. \<open>res\<close> is the pointer to the paired
  Response.
\<close>

record Request =
  Method :: string
  res :: "ptr option"
  params :: "RequestParam slice"
  routeParamNames :: "string list option"
  routeParamValues :: "string list option"
  parseRouteParamsOnce :: Once
  parseOtherParamsOnce :: Once
  localizedString :: "(string \<Rightarrow> string) option"

text \<open>
  \<open>Response\<close>, with the fields of the struct and the ones \<open>ServeHTTP\<close> resets.
  \<open>ContentLength\<close> is an \<open>int64\<close>. \<open>Header\<close> is the header map of the underlying
  response writer (\<open>SetHTTPResponseWriter\<close> stores that very map), so the model keeps
  the one live copy here. \<open>req\<close> is the pointer to the paired Request. A deferred
  function is a \<open>func()\<close>; it acts on the part of the state that is not the
  Request/Response pair, the \<open>world\<close> of type \<open>'w\<close>.
\<close>

record 'w Response =
  Status :: int
  Header :: header
  ContentLength :: "64 word"
  Written :: bool
  Minified :: bool
  Gzipped :: bool
  req :: "ptr option"
  servingContent :: bool
  serveContentError :: "error option"
  reverseProxying :: bool
  reverseProxyError :: "error option"
  deferredFuncs :: "('w \<Rightarrow> 'w) slice"

text \<open>
  Everything one request touches: the pooled pair, net/http's request \<open>r\<close>, the
  underlying response writer (the \<open>ohrw\<close> of the Response; its \<open>hrw\<close> is the
  \<open>responseWriter\<close> around it) and the rest of the program's state. A handler,
  \<open>func(req *Request, res *Response) error\<close>, takes this state to its error, if any,
  and the state it leaves; a gas takes a handler to a handler.
\<close>

record 'w ctx =
  request :: Request
  response :: "'w Response"
  hreq :: HTTPRequest
  wire :: wire
  world :: 'w

type_synonym 'w Handler = "'w ctx \<Rightarrow> error option \<times> 'w ctx"

type_synonym 'w Gas = "'w Handler \<Rightarrow> 'w Handler"

text \<open>
  The \<open>Air\<close> instance, as far as the code reads it. \<open>TLSConfigured\<close> stands for
  \<open>server.server.TLSConfig != nil\<close>; \<open>router\<close> is \<open>router.route\<close>, which returns the
  handler of the request and may fill in the Request.
\<close>

record 'w Air =
  DebugMode :: bool
  HTTPSEnforced :: bool
  TLSConfigured :: bool
  HostWhitelist :: "string list"
  Pregases :: "'w Gas list"
  Gases :: "'w Gas list"
  router :: "'w ctx \<Rightarrow> 'w Handler \<times> 'w ctx"
  ErrorHandler :: "error \<Rightarrow> 'w ctx \<Rightarrow> 'w ctx"

section \<open>The response writer\<close>

text \<open>\<open>responseWriter.WriteHeader\<close>.\<close>

definition responseWriter_WriteHeader :: "'w Air \<Rightarrow> int \<Rightarrow> 'w ctx \<Rightarrow> 'w ctx" where
  "responseWriter_WriteHeader a status c =
     (if Written (response c) then c
      else
        let status' = (if status = 200 \<and> status \<noteq> Status (response c)
                       then Status (response c) else status);
            h = Header (response c);
            h1 = (if \<not> DebugMode a \<and> HTTPSEnforced a \<and> TLSConfigured a \<and>
                     Header_Get h ''Strict-Transport-Security'' = []
                  then Header_Set ''Strict-Transport-Security'' ''max-age=31536000'' h
                  else h);
            h2 = Header_Set ''Server'' ''Air'' h1
        in c\<lparr>wire := w_WriteHeader status' (wire c),
              response := (response c)\<lparr>Header := h2, Status := status', Written := True\<rparr>\<rparr>)"

text \<open>\<open>responseWriter.Write\<close>.\<close>

definition responseWriter_Write ::
  "'w Air \<Rightarrow> bytes \<Rightarrow> 'w ctx \<Rightarrow> (nat \<times> error option) \<times> 'w ctx" where
  "responseWriter_Write a b c =
     (let c1 = (if \<not> Written (response c)
                then responseWriter_WriteHeader a (Status (response c)) c else c);
          (r, w') = w_Write b (wire c1)
      in case snd r of
           Some e \<Rightarrow> ((0, Some e), c1\<lparr>wire := w'\<rparr>)
         | None \<Rightarrow>
             ((fst r, None),
              c1\<lparr>wire := w',
                 response := (response c1)
                   \<lparr>ContentLength := ContentLength (response c1) + of_nat (fst r)\<rparr>\<rparr>))"

text \<open>
  Code outside the repository (net/http's \<open>ServeContent\<close> and \<open>Redirect\<close>) reaches the
  Response only through the \<open>http.ResponseWriter\<close> it is handed, which is the
  \<open>responseWriter\<close> above. Such a function is therefore modelled by the calls it makes
  on that interface: changes of the header map, \<open>WriteHeader\<close> and \<open>Write\<close>.
\<close>

datatype rwcall = HeaderSet string string | HeaderDel string | CallWriteHeader int | CallWrite bytes

fun run_call :: "'w Air \<Rightarrow> rwcall \<Rightarrow> 'w ctx \<Rightarrow> 'w ctx" where
  "run_call a (HeaderSet k v) c =
     c\<lparr>response := (response c)\<lparr>Header := Header_Set k v (Header (response c))\<rparr>\<rparr>"
| "run_call a (HeaderDel k) c =
     c\<lparr>response := (response c)\<lparr>Header := Header_Del k (Header (response c))\<rparr>\<rparr>"
| "run_call a (CallWriteHeader status) c = responseWriter_WriteHeader a status c"
| "run_call a (CallWrite b) c = snd (responseWriter_Write a b c)"

definition run_calls :: "'w Air \<Rightarrow> rwcall list \<Rightarrow> 'w ctx \<Rightarrow> 'w ctx" where
  "run_calls a cs c = fold (run_call a) cs c"

text \<open>
  The standard library, as parameters. \<open>ServeContent\<close> gives the calls that
  \<open>http.ServeContent\<close> makes for a request, the header map it finds and the content
  (\<open>None\<close> is a nil reader). \<open>http.Redirect(w, r, url, code)\<close> sets headers (Location,
  and a Content-Type in some cases), calls \<open>w.WriteHeader(code)\<close> and then may write a
  short body: \<open>redirectHeaders\<close> are the headers it sets and \<open>redirectBody\<close> the
  writes of the body. \<open>SplitHost\<close> is the first result of \<open>net.SplitHostPort\<close> (empty
  when it fails).
\<close>

record lib =
  ServeContent :: "HTTPRequest \<Rightarrow> header \<Rightarrow> bytes option \<Rightarrow> rwcall list"
  redirectHeaders :: "HTTPRequest \<Rightarrow> header \<Rightarrow> string \<Rightarrow> (string \<times> string) list"
  redirectBody :: "HTTPRequest \<Rightarrow> header \<Rightarrow> string \<Rightarrow> int \<Rightarrow> bytes list"
  SplitHost :: "string \<Rightarrow> string"


section \<open>Response\<close>

text \<open>
  \<open>io.Copy(r.hrw, content)\<close>: a \<open>bytes.Reader\<close> hands its unread bytes to the writer
  in one \<open>Write\<close>, and makes no call when there are none; a nil reader panics.
\<close>

definition io_Copy :: "'w Air \<Rightarrow> bytes option \<Rightarrow> 'w ctx \<Rightarrow> error option \<times> 'w ctx" where
  "io_Copy a content c =
     (case content of
        None \<Rightarrow> (Some (Panic ''nil pointer dereference''), c)
      | Some b \<Rightarrow>
          if b = [] then (None, c)
          else let (r, c') = responseWriter_Write a b c in (snd r, c'))"

text \<open>\<open>Response.Write\<close>.\<close>

definition Response_Write ::
  "'w Air \<Rightarrow> lib \<Rightarrow> bytes option \<Rightarrow> 'w ctx \<Rightarrow> error option \<times> 'w ctx" where
  "Response_Write a l content c =
     (if Written (response c) then
        (if Method (request c) \<noteq> ''HEAD'' then io_Copy a content c else (None, c))
      else
        (None, run_calls a (ServeContent l (hreq c) (Header (response c)) content) c))"


text \<open>
  \<open>Response.WebSocket\<close>, up to the outcome of the handshake. The upgrader is outside
  the repository; its \<open>Upgrade\<close> gives a connection, or refuses the handshake and
  reports the status through the \<open>Error\<close> callback that \<open>WebSocket\<close> installs, or
  fails after it has taken the connection over, without the callback.
  \<open>WebSocket_mark\<close> is the two assignments before the handshake, \<open>WebSocket_Error\<close>
  the callback.
\<close>

datatype 'conn upgrade_result = Upgraded 'conn | Refused int error | Failed error

definition WebSocket_mark :: "'w ctx \<Rightarrow> 'w ctx" where
  "WebSocket_mark c = c\<lparr>response := (response c)\<lparr>Status := 101, Written := True\<rparr>\<rparr>"

definition WebSocket_Error :: "int \<Rightarrow> 'w ctx \<Rightarrow> 'w ctx" where
  "WebSocket_Error status c =
     c\<lparr>response := (response c)\<lparr>Status := status, Written := False\<rparr>\<rparr>"

definition WebSocket ::
  "(HTTPRequest \<Rightarrow> header \<Rightarrow> 'conn upgrade_result) \<Rightarrow> 'w ctx \<Rightarrow> (error + 'conn) \<times> 'w ctx" where
  "WebSocket upgrade c =
     (let c1 = WebSocket_mark c in
      case upgrade (hreq c1) (Header (response c1)) of
        Upgraded cn \<Rightarrow> (Inr cn, c1)
      | Refused status e \<Rightarrow> (Inl e, WebSocket_Error status c1)
      | Failed e \<Rightarrow> (Inl e, c1))"

text \<open>
  The operations that touch \<open>Written\<close> during a request: the calls on the response
  writer, and an upgrade with its outcome. \<open>refused\<close> singles out the refused upgrade.
\<close>

datatype 'conn response_op = WriterCall rwcall | UpgradeCall "'conn upgrade_result"

fun run_op :: "'w Air \<Rightarrow> 'conn response_op \<Rightarrow> 'w ctx \<Rightarrow> 'w ctx" where
  "run_op a (WriterCall k) c = run_call a k c"
| "run_op a (UpgradeCall u) c = snd (WebSocket (\<lambda>r h. u) c)"

fun refused :: "'conn response_op \<Rightarrow> bool" where
  "refused (UpgradeCall (Refused status e)) = True"
| "refused _ = False"

section \<open>The minifier\<close>

text \<open>
  The image codecs and the minify library are outside the repository:
  \<open>parse_Mediatype\<close> is the media type the library reads off the string it is given,
  \<open>tdewolff\<close> gives the library's minifier of each of its packages.
\<close>

record 'img thirdparty =
  jpeg_Decode :: "bytes \<Rightarrow> error + 'img"
  jpeg_Encode :: "'img \<Rightarrow> error + bytes"
  png_Decode :: "bytes \<Rightarrow> error + 'img"
  parse_Mediatype :: "string \<Rightarrow> string"
  tdewolff :: "string \<Rightarrow> bytes \<Rightarrow> error + bytes"

text \<open>
  The struct \<open>minifier\<close>: the PNG encoder and the library's registry \<open>m\<close>, a map from
  media types to minifiers.
\<close>

record 'img minifier =
  pngEncoder :: "'img \<Rightarrow> error + bytes"
  m :: "string \<Rightarrow> (bytes \<Rightarrow> error + bytes) option"

definition newMinifier :: "('img \<Rightarrow> error + bytes) \<Rightarrow> 'img minifier" where
  "newMinifier enc = \<lparr>pngEncoder = enc, m = Map.empty\<rparr>"

text \<open>\<open>minifier.Init\<close>: six \<open>Add\<close> calls; it returns no error.\<close>

definition Init :: "'img thirdparty \<Rightarrow> 'img minifier \<Rightarrow> 'img minifier" where
  "Init tp mz =
     mz\<lparr>m := (m mz)
       (''text/html'' \<mapsto> tdewolff tp ''html'',
        ''text/css'' \<mapsto> tdewolff tp ''css'',
        ''text/javascript'' \<mapsto> tdewolff tp ''js'',
        ''application/json'' \<mapsto> tdewolff tp ''json'',
        ''text/xml'' \<mapsto> tdewolff tp ''xml'',
        ''image/svg+xml'' \<mapsto> tdewolff tp ''svg'')\<rparr>"

text \<open>
  The library's \<open>M.Minify\<close>: \<open>ErrNotExist\<close> when no minifier is registered for the
  media type, the registered minifier's result otherwise.
\<close>

definition M_Minify ::
  "'img thirdparty \<Rightarrow> (string \<Rightarrow> (bytes \<Rightarrow> error + bytes) option) \<Rightarrow> string \<Rightarrow> bytes \<Rightarrow> error + bytes" where
  "M_Minify tp reg mimeType b =
     (case reg (parse_Mediatype tp mimeType) of None \<Rightarrow> Inl ErrNotExist | Some f \<Rightarrow> f b)"

definition minifyJPEG :: "'img thirdparty \<Rightarrow> bytes \<Rightarrow> error + bytes" where
  "minifyJPEG tp b =
     (case jpeg_Decode tp b of Inl e \<Rightarrow> Inl e | Inr img \<Rightarrow>
        (case jpeg_Encode tp img of Inl e \<Rightarrow> Inl e | Inr out \<Rightarrow> Inr out))"

definition minifyPNG :: "'img thirdparty \<Rightarrow> 'img minifier \<Rightarrow> bytes \<Rightarrow> error + bytes" where
  "minifyPNG tp mz b =
     (case png_Decode tp b of Inl e \<Rightarrow> Inl e | Inr img \<Rightarrow>
        (case pngEncoder mz img of Inl e \<Rightarrow> Inl e | Inr out \<Rightarrow> Inr out))"

definition minifyOthers :: "'img thirdparty \<Rightarrow> 'img minifier \<Rightarrow> string \<Rightarrow> bytes \<Rightarrow> error + bytes" where
  "minifyOthers tp mz mimeType b =
     (case M_Minify tp (m mz) mimeType b of
        Inl e \<Rightarrow> if e = ErrNotExist then Inl (Error ''unsupported mime type'') else Inl e
      | Inr out \<Rightarrow> Inr out)"

definition Minify :: "'img thirdparty \<Rightarrow> 'img minifier \<Rightarrow> string \<Rightarrow> bytes \<Rightarrow> error + bytes" where
  "Minify tp mz mimeType b =
     (if mimeType = ''image/jpeg'' then minifyJPEG tp b
      else if mimeType = ''image/png'' then minifyPNG tp mz b
      else minifyOthers tp mz mimeType b)"

text \<open>
  Modelled from the spec: \<open>minifier.minify\<close>, the unexported method that
  \<open>Response.WriteBlob\<close> calls, is not among the sources (\<open>minifier.go\<close> holds the
  exported \<open>Minify\<close> above, a different method). By the spec, \<open>minify(mimeType, bytes)\<close>
  gives the original bytes and no error when the content type has no registered
  minifier, and a registered minifier's failure is propagated.
\<close>

definition minify :: "'img thirdparty \<Rightarrow> 'img minifier \<Rightarrow> string \<Rightarrow> bytes \<Rightarrow> error + bytes" where
  "minify tp mz mimeType b =
     (case m mz (parse_Mediatype tp mimeType) of None \<Rightarrow> Inr b | Some f \<Rightarrow> f b)"

text \<open>\<open>Response.WriteBlob\<close>.\<close>

definition WriteBlob ::
  "'w Air \<Rightarrow> lib \<Rightarrow> 'img thirdparty \<Rightarrow> 'img minifier \<Rightarrow> bytes \<Rightarrow> 'w ctx \<Rightarrow> error option \<times> 'w ctx" where
  "WriteBlob a l tp mz b c =
     (let ct = Header_Get (Header (response c)) ''Content-Type'' in
      if ct \<noteq> [] then
        (case minify tp mz ct b of
           Inl e \<Rightarrow> (Some e, c)
         | Inr b' \<Rightarrow> Response_Write a l (Some b') c)
      else Response_Write a l (Some b) c)"

text \<open>\<open>Response.WriteString\<close>.\<close>

definition WriteString ::
  "'w Air \<Rightarrow> lib \<Rightarrow> 'img thirdparty \<Rightarrow> 'img minifier \<Rightarrow> string \<Rightarrow> 'w ctx \<Rightarrow> error option \<times> 'w ctx" where
  "WriteString a l tp mz s c =
     WriteBlob a l tp mz s
       (c\<lparr>response := (response c)
            \<lparr>Header := Header_Set ''Content-Type'' ''text/plain; charset=utf-8'' (Header (response c))\<rparr>\<rparr>)"

section \<open>The server\<close>

subsection \<open>Host policy and certificate selection\<close>

text \<open>
  Modelled from the spec: \<open>stringSliceContainsCIly\<close> is not among the sources; by its
  name and the spec's words it tells whether the slice holds the string, compared
  case-insensitively (ASCII letters folded to lower case here).
\<close>

definition toLower :: "string \<Rightarrow> string" where
  "toLower s =
     map (\<lambda>ch. if 65 \<le> (of_char ch :: nat) \<and> (of_char ch :: nat) \<le> 90
               then char_of ((of_char ch :: nat) + 32) else ch) s"

definition stringSliceContainsCIly :: "string list \<Rightarrow> string \<Rightarrow> bool" where
  "stringSliceContainsCIly ss s = list_ex (\<lambda>v. toLower v = toLower s) ss"

text \<open>\<open>server.allowedHost\<close>.\<close>

definition allowedHost :: "lib \<Rightarrow> 'w Air \<Rightarrow> string \<Rightarrow> bool" where
  "allowedHost l a host =
     (if DebugMode a \<or> length (HostWhitelist a) = 0 then True
      else
        let h = SplitHost l host;
            host' = (if h \<noteq> [] then h else host)
        in stringSliceContainsCIly (HostWhitelist a) host')"

text \<open>
  A \<open>net.Conn\<close>, as far as the handshake callback uses it: \<open>Close\<close> closes it and
  returns whatever error closing gives.
\<close>

record conn =
  closed :: bool
  closeErr :: "error option"

definition Conn_Close :: "conn \<Rightarrow> error option \<times> conn" where
  "Conn_Close cn = (closeErr cn, cn\<lparr>closed := True\<rparr>)"

text \<open>
  The \<open>GetCertificate\<close> callback that \<open>serve\<close> installs in static-certificate mode,
  for the certificate \<open>cert\<close> loaded at start, the server name of the client hello and
  its connection. The result is the pair that the callback returns and the connection.
\<close>

definition GetCertificate ::
  "lib \<Rightarrow> 'w Air \<Rightarrow> 'cert \<Rightarrow> string \<Rightarrow> conn \<Rightarrow> ('cert option \<times> error option) \<times> conn" where
  "GetCertificate l a cert serverName cn =
     (if \<not> allowedHost l a serverName then
        (let (e, cn') = Conn_Close cn in ((None, e), cn'))
      else ((Some cert, None), cn))"

subsection \<open>ServeHTTP\<close>

text \<open>
  The reset of the pooled Request. \<open>SetHTTPRequest\<close> is not among the sources and is a
  parameter \<open>shr\<close>; the assignments after it are the code's. \<open>sp\<close> is the address of
  the Response acquired with it. (\<open>req.Air = s.a\<close> has no counterpart: the instance is
  the parameter \<open>a\<close> of every operation.)
\<close>

definition reset_request ::
  "(HTTPRequest \<Rightarrow> Request \<Rightarrow> Request) \<Rightarrow> HTTPRequest \<Rightarrow> ptr \<Rightarrow> Request \<Rightarrow> Request" where
  "reset_request shr r sp rq =
     (let rq1 = shr r rq in
      rq1\<lparr>res := Some sp,
          params := slice0 (params rq1),
          routeParamNames := None,
          routeParamValues := None,
          parseRouteParamsOnce := Once False,
          parseOtherParamsOnce := Once False,
          localizedString := None\<rparr>)"

text \<open>
  The reset of the pooled Response for the response writer \<open>rw\<close>; \<open>rp\<close> is the address
  of the Request acquired with it. \<open>SetHTTPResponseWriter\<close> makes \<open>Header\<close> the header
  map of \<open>rw\<close>.
\<close>

definition reset_response :: "wire \<Rightarrow> ptr \<Rightarrow> 'w Response \<Rightarrow> 'w Response" where
  "reset_response rw rp rs =
     rs\<lparr>Header := wheader rw,
        Status := 200,
        ContentLength := - 1,
        Written := False,
        Minified := False,
        Gzipped := False,
        req := Some rp,
        servingContent := False,
        serveContentError := None,
        reverseProxying := False,
        reverseProxyError := None,
        deferredFuncs := slice0 (deferredFuncs rs)\<rparr>"

text \<open>
  The state in which the handler chain starts: the pair drawn from the pools (each
  with its address), reset for the request \<open>r\<close> and the response writer \<open>rw\<close>. The
  wrapping of \<open>r.Body\<close> is left out: no operation here reads a body.
\<close>

definition acquire ::
  "(HTTPRequest \<Rightarrow> Request \<Rightarrow> Request) \<Rightarrow> wire \<Rightarrow> HTTPRequest \<Rightarrow>
   ptr \<times> Request \<Rightarrow> ptr \<times> 'w Response \<Rightarrow> 'w \<Rightarrow> 'w ctx" where
  "acquire shr rw r preq pres w =
     \<lparr>request = reset_request shr r (fst pres) (snd preq),
      response = reset_response rw (fst preq) (snd pres),
      hreq = r,
      wire = rw,
      world = w\<rparr>"

text \<open>
  The statements of the no-content branch before its write: the status of the
  Response, and two deletions on \<open>r.Header\<close>, where \<open>r\<close> is the \<open>*http.Request\<close> of
  \<open>ServeHTTP\<close>.
\<close>

definition no_content :: "'w ctx \<Rightarrow> 'w ctx" where
  "no_content c =
     c\<lparr>response := (response c)\<lparr>Status := 204\<rparr>,
       hreq := (hreq c)\<lparr>rHeader :=
         Header_Del ''Content-Length'' (Header_Del ''Content-Type'' (rHeader (hreq c)))\<rparr>\<rparr>"

text \<open>The inner closure of \<open>ServeHTTP\<close>, around the routed handler \<open>rh\<close>.\<close>

definition routed :: "'w Air \<Rightarrow> lib \<Rightarrow> 'w Handler \<Rightarrow> 'w Handler" where
  "routed a l rh c =
     (let (err, c1) = rh c in
      if Written (response c1) then (err, c1)
      else if err = None then Response_Write a l None (no_content c1)
      else if Status (response c1) < 400 then
        (err, c1\<lparr>response := (response c1)\<lparr>Status := 500\<rparr>\<rparr>)
      else (err, c1))"

text \<open>
  The two chaining loops, \<open>for i := len(gs) - 1; i >= 0; i-- { h = gs[i](h) }\<close>:
  \<open>chain i gs h\<close> is the loop with \<open>i\<close> indices still to go.
\<close>

fun chain :: "nat \<Rightarrow> 'w Gas list \<Rightarrow> 'w Handler \<Rightarrow> 'w Handler" where
  "chain 0 gs h = h"
| "chain (Suc i) gs h = chain i gs ((gs ! i) h)"

text \<open>The outer closure: route resolution, then the gases around the routed handler.\<close>

definition gases_stack :: "'w Air \<Rightarrow> lib \<Rightarrow> 'w Handler" where
  "gases_stack a l c =
     (let (rh, c1) = router a c in
      chain (length (Gases a)) (Gases a) (routed a l rh) c1)"

definition pregases_stack :: "'w Air \<Rightarrow> lib \<Rightarrow> 'w Handler" where
  "pregases_stack a l = chain (length (Pregases a)) (Pregases a) (gases_stack a l)"

text \<open>Executing the chain, and the error handler when it returns an error.\<close>

definition execute :: "'w Air \<Rightarrow> lib \<Rightarrow> 'w ctx \<Rightarrow> 'w ctx" where
  "execute a l c =
     (let (err, c1) = pregases_stack a l c in
      case err of None \<Rightarrow> c1 | Some e \<Rightarrow> ErrorHandler a e c1)"

text \<open>
  The loop over the deferred functions,
  \<open>for i := len(res.deferredFuncs) - 1; i >= 0; i-- { res.deferredFuncs[i]() }\<close>,
  with \<open>i\<close> indices still to go.
\<close>

fun deferred_loop :: "nat \<Rightarrow> 'w ctx \<Rightarrow> 'w ctx" where
  "deferred_loop 0 c = c"
| "deferred_loop (Suc i) c =
     deferred_loop i (c\<lparr>world := (elems (deferredFuncs (response c)) ! i) (world c)\<rparr>)"

definition run_deferred :: "'w ctx \<Rightarrow> 'w ctx" where
  "run_deferred c = deferred_loop (slice_len (deferredFuncs (response c))) c"

text \<open>
  \<open>server.ServeHTTP\<close>. The Request and the Response of the result are the ones that go
  back to the pools.
\<close>

definition ServeHTTP ::
  "'w Air \<Rightarrow> lib \<Rightarrow> (HTTPRequest \<Rightarrow> Request \<Rightarrow> Request) \<Rightarrow> wire \<Rightarrow> HTTPRequest \<Rightarrow>
   ptr \<times> Request \<Rightarrow> ptr \<times> 'w Response \<Rightarrow> 'w \<Rightarrow> 'w ctx" where
  "ServeHTTP a l shr rw r preq pres w =
     run_deferred (execute a l (acquire shr rw r preq pres w))"

section \<open>Stubs and sample values\<close>

text \<open>
  Stub collaborators and sample values, for instances of the theorems below. The
  world of the stubs is a log of events.
\<close>

datatype event =
  Enter string | Exit string | RouteResolved | HandlerRan | DeferredRan string
  | ErrorHandled error int

definition example_air :: "event list Air" where
  "example_air =
     \<lparr>DebugMode = False, HTTPSEnforced = False, TLSConfigured = False,
      HostWhitelist = [], Pregases = [], Gases = [],
      router = (\<lambda>c. ((\<lambda>c'. (None, c')), c)),
      ErrorHandler = (\<lambda>e c. c\<lparr>world := world c @ [ErrorHandled e (Status (response c))]\<rparr>)\<rparr>"

definition example_lib :: lib where
  "example_lib =
     \<lparr>ServeContent = (\<lambda>r h content.
         CallWriteHeader 200 # (case content of None \<Rightarrow> [] | Some b \<Rightarrow> [CallWrite b])),
      redirectHeaders = (\<lambda>r h u. [(''Location'', u)]),
      redirectBody = (\<lambda>r h u k. if rMethod r = ''GET'' then [u] else []),
      SplitHost = (\<lambda>s. if CHR '':'' \<in> set s then takeWhile (\<lambda>ch. ch \<noteq> CHR '':'') s else [])\<rparr>"

definition example_wire :: wire where
  "example_wire = \<lparr>calls = [], broken = False, wheader = Map.empty\<rparr>"

definition example_hreq :: HTTPRequest where
  "example_hreq = \<lparr>rMethod = ''GET'', rHost = ''example.com'', rHeader = Map.empty\<rparr>"

definition example_request :: Request where
  "example_request =
     \<lparr>Method = ''GET'', res = None, params = Slice [] [], routeParamNames = None,
      routeParamValues = None, parseRouteParamsOnce = Once False,
      parseOtherParamsOnce = Once False, localizedString = None\<rparr>"

definition example_response :: "event list Response" where
  "example_response =
     \<lparr>Status = 0, Header = Map.empty, ContentLength = 0, Written = False, Minified = False,
      Gzipped = False, req = None, servingContent = False, serveContentError = None,
      reverseProxying = False, reverseProxyError = None, deferredFuncs = Slice [] []\<rparr>"

definition SetHTTPRequest_example :: "HTTPRequest \<Rightarrow> Request \<Rightarrow> Request" where
  "SetHTTPRequest_example r rq = rq\<lparr>Method := rMethod r\<rparr>"

definition example_ctx :: "event list ctx" where
  "example_ctx =
     acquire SetHTTPRequest_example example_wire example_hreq
       (1, example_request) (2, example_response) []"

definition not_found_ctx :: "event list ctx" where
  "not_found_ctx = example_ctx\<lparr>response := (response example_ctx)\<lparr>Status := 404\<rparr>\<rparr>"

text \<open>
  Stubs of the third-party code of the minifier: the media type of a string is what
  stands before its first semicolon, and every library minifier drops the blanks.
\<close>

definition thirdparty_example :: "bytes thirdparty" where
  "thirdparty_example =
     \<lparr>jpeg_Decode = Inr, jpeg_Encode = Inr, png_Decode = Inr,
      parse_Mediatype = takeWhile (\<lambda>ch. ch \<noteq> CHR '';''),
      tdewolff = (\<lambda>pkg b. Inr (filter (\<lambda>ch. ch \<noteq> CHR '' '') b))\<rparr>"

definition minifier_example :: "bytes minifier" where
  "minifier_example = Init thirdparty_example (newMinifier Inr)"

definition plain_ctx :: "event list ctx" where
  "plain_ctx =
     example_ctx\<lparr>response := (response example_ctx)
       \<lparr>Header := Header_Set ''Content-Type'' ''text/plain'' (Header (response example_ctx))\<rparr>\<rparr>"

definition written_ctx :: "event list ctx" where
  "written_ctx = responseWriter_WriteHeader example_air 200 plain_ctx"


definition route_to ::
  "event list Handler \<Rightarrow> event list ctx \<Rightarrow> event list Handler \<times> event list ctx" where
  "route_to H c = (H, c\<lparr>world := world c @ [RouteResolved]\<rparr>)"

definition logging_handler :: "error option \<Rightarrow> event list Handler" where
  "logging_handler e c = (e, c\<lparr>world := world c @ [HandlerRan]\<rparr>)"


definition deny :: "event list Gas" where
  "deny next c = (Some (Error ''denied''), c)"





definition failing_air :: "event list Air" where
  "failing_air = example_air\<lparr>router := route_to (logging_handler (Some (Error ''boom'')))\<rparr>"

definition failed_ctx :: "event list ctx" where
  "failed_ctx = example_ctx\<lparr>world := [RouteResolved, HandlerRan]\<rparr>"

definition whitelist_air :: "event list Air" where
  "whitelist_air = example_air\<lparr>HostWhitelist := [''Example.com'', ''api.example.com'']\<rparr>"

definition open_conn :: conn where
  "open_conn = \<lparr>closed = False, closeErr = None\<rparr>"

definition refusing_upgrader :: "HTTPRequest \<Rightarrow> header \<Rightarrow> nat upgrade_result" where
  "refusing_upgrader r h = Refused 400 (Error ''not a websocket handshake'')"

section \<open>Properties\<close>

lemmas example_defs = example_air_def example_lib_def example_wire_def example_hreq_def
  example_request_def example_response_def SetHTTPRequest_example_def example_ctx_def
  acquire_def reset_request_def reset_response_def slice0_def

lemmas eval_defs = ServeHTTP_def run_deferred_def slice_len_def execute_def pregases_stack_def
  gases_stack_def routed_def Response_Write_def no_content_def run_calls_def
  responseWriter_WriteHeader_def responseWriter_Write_def w_Write_def w_WriteHeader_def
  Header_Get_def Header_Set_def Header_Del_def Let_def

subsection \<open>What the response writer leaves alone\<close>

lemma WriteHeader_Written [simp]:
  "Written (response (responseWriter_WriteHeader a s c))"
  by (simp add: responseWriter_WriteHeader_def Let_def)

lemma WriteHeader_noop: "Written (response c) \<Longrightarrow> responseWriter_WriteHeader a s c = c"
  by (simp add: responseWriter_WriteHeader_def)

lemma Write_Written [simp]:
  "Written (response (snd (responseWriter_Write a b c)))"
  by (simp add: responseWriter_Write_def Let_def w_Write_def split: prod.splits option.splits)


lemma run_call_Written: "Written (response c) \<Longrightarrow> Written (response (run_call a k c))"
  by (cases k) (simp_all add: WriteHeader_noop)

lemma world_WriteHeader [simp]: "world (responseWriter_WriteHeader a s c) = world c"
  by (simp add: responseWriter_WriteHeader_def Let_def)

lemma world_Write [simp]: "world (snd (responseWriter_Write a b c)) = world c"
  by (simp add: responseWriter_Write_def Let_def case_prod_beta split: option.splits)

lemma world_run_call [simp]: "world (run_call a k c) = world c"
  by (cases k) simp_all

lemma world_run_calls [simp]: "world (run_calls a cs c) = world c"
  unfolding run_calls_def by (induction cs arbitrary: c) simp_all

lemma world_no_content [simp]: "world (no_content c) = world c"
  by (simp add: no_content_def)

lemma world_Response_Write [simp]: "world (snd (Response_Write a l content c)) = world c"
  by (simp add: Response_Write_def io_Copy_def case_prod_beta split: option.splits)

lemma world_routed [simp]: "world (snd (routed a l rh c)) = world (snd (rh c))"
  by (simp add: routed_def Let_def case_prod_beta)

lemma deferredFuncs_WriteHeader [simp]:
  "deferredFuncs (response (responseWriter_WriteHeader a s c)) = deferredFuncs (response c)"
  by (simp add: responseWriter_WriteHeader_def Let_def)

lemma deferredFuncs_Write [simp]:
  "deferredFuncs (response (snd (responseWriter_Write a b c))) = deferredFuncs (response c)"
  by (simp add: responseWriter_Write_def Let_def case_prod_beta split: option.splits)

lemma deferredFuncs_run_call [simp]:
  "deferredFuncs (response (run_call a k c)) = deferredFuncs (response c)"
  by (cases k) simp_all

lemma deferredFuncs_run_calls [simp]:
  "deferredFuncs (response (run_calls a cs c)) = deferredFuncs (response c)"
  unfolding run_calls_def by (induction cs arbitrary: c) simp_all

lemma deferredFuncs_Response_Write [simp]:
  "deferredFuncs (response (snd (Response_Write a l content c))) = deferredFuncs (response c)"
  by (simp add: Response_Write_def io_Copy_def case_prod_beta split: option.splits)

subsection \<open>The loops\<close>





lemma elems_append_slice [simp]: "elems (append_slice s x) = elems s @ [x]"
  by (cases "(s, x)" rule: append_slice.cases) simp_all



lemma routed_error:
  "rh c = (Some e, c1) \<Longrightarrow> \<not> Written (response c1) \<Longrightarrow>
   routed a l rh c
     = (Some e, c1\<lparr>response := (response c1)
          \<lparr>Status := (if Status (response c1) < 400 then 500 else Status (response c1))\<rparr>\<rparr>)"
  by (simp add: routed_def)

subsection \<open>The no-content result\<close>


subsection \<open>The blob write and the minifier\<close>

text \<open>
  The exported \<open>Minify\<close> of \<open>minifier.go\<close>, which is not on the blob write path,
  treats a content type without a registered minifier as an error.
\<close>

lemma Minify_unregistered:
  "mimeType \<noteq> ''image/jpeg'' \<Longrightarrow> mimeType \<noteq> ''image/png'' \<Longrightarrow>
   m mz (parse_Mediatype tp mimeType) = None \<Longrightarrow>
   Minify tp mz mimeType b = Inl (Error ''unsupported mime type'')"
  by (simp add: Minify_def minifyOthers_def M_Minify_def)

lemma WriteBlob_unregistered:
  "m mz (parse_Mediatype tp (Header_Get (Header (response c)) ''Content-Type'')) = None \<Longrightarrow>
   WriteBlob a l tp mz b c = Response_Write a l (Some b) c"
  by (simp add: WriteBlob_def minify_def Let_def)

text \<open>
  C2. When no minifier is registered for the content type of the response,
  \<open>WriteBlob\<close> is \<open>Response.Write\<close> on the original bytes: the payload reaches the
  write path unchanged and the missing minifier raises no error. The same holds for
  \<open>WriteString\<close> when text/plain has no minifier. The write itself returns no error
  before the header is committed, and afterwards unless the connection fails; on a
  committed response of a request other than HEAD, a payload that is not empty is
  sent as it is.
\<close>

theorem WriteBlob_passes_unminified:
  assumes "m mz (parse_Mediatype tp (Header_Get (Header (response c)) ''Content-Type'')) = None"
  shows "WriteBlob a l tp mz b c = Response_Write a l (Some b) c
    \<and> (m mz (parse_Mediatype tp ''text/plain; charset=utf-8'') = None \<longrightarrow>
         WriteString a l tp mz b c
           = Response_Write a l (Some b)
               (c\<lparr>response := (response c)
                  \<lparr>Header := Header_Set ''Content-Type'' ''text/plain; charset=utf-8''
                     (Header (response c))\<rparr>\<rparr>))
    \<and> (\<not> Written (response c) \<longrightarrow> fst (WriteBlob a l tp mz b c) = None)
    \<and> (Written (response c) \<and> \<not> broken (wire c) \<longrightarrow> fst (WriteBlob a l tp mz b c) = None)
    \<and> (Written (response c) \<and> \<not> broken (wire c) \<and> Method (request c) \<noteq> ''HEAD'' \<and> b \<noteq> [] \<longrightarrow>
         calls (wire (snd (WriteBlob a l tp mz b c))) = calls (wire c) @ [WWrite b])"
proof -
  have eq: "WriteBlob a l tp mz b c = Response_Write a l (Some b) c"
    using assms by (rule WriteBlob_unregistered)
  have str: "m mz (parse_Mediatype tp ''text/plain; charset=utf-8'') = None \<longrightarrow>
         WriteString a l tp mz b c
           = Response_Write a l (Some b)
               (c\<lparr>response := (response c)
                  \<lparr>Header := Header_Set ''Content-Type'' ''text/plain; charset=utf-8''
                     (Header (response c))\<rparr>\<rparr>)"
    by (simp add: WriteString_def WriteBlob_unregistered Header_Get_def Header_Set_def)
  have fresh: "\<not> Written (response c) \<longrightarrow> fst (Response_Write a l (Some b) c) = None"
    by (simp add: Response_Write_def)
  have sent: "Written (response c) \<and> \<not> broken (wire c) \<longrightarrow>
      fst (Response_Write a l (Some b) c) = None"
    by (simp add: Response_Write_def io_Copy_def responseWriter_Write_def w_Write_def)
  have body: "Written (response c) \<and> \<not> broken (wire c) \<and> Method (request c) \<noteq> ''HEAD''
        \<and> b \<noteq> [] \<longrightarrow>
      calls (wire (snd (Response_Write a l (Some b) c))) = calls (wire c) @ [WWrite b]"
    by (simp add: Response_Write_def io_Copy_def responseWriter_Write_def w_Write_def)
  from eq str fresh sent body show ?thesis by simp
qed

theorem WriteBlob_passes_unminified_witness:
  "m minifier_example (parse_Mediatype thirdparty_example
       (Header_Get (Header (response plain_ctx)) ''Content-Type'')) = None
   \<and> \<not> Written (response plain_ctx)
   \<and> WriteBlob example_air example_lib thirdparty_example minifier_example ''h  i'' plain_ctx
       = Response_Write example_air example_lib (Some ''h  i'') plain_ctx
   \<and> fst (WriteBlob example_air example_lib thirdparty_example minifier_example ''h  i''
        plain_ctx) = None
   \<and> calls (wire (snd (WriteBlob example_air example_lib thirdparty_example minifier_example
        ''h  i'' plain_ctx))) = [WWriteHeader 200, WWrite ''h  i'']
   \<and> m minifier_example (parse_Mediatype thirdparty_example ''text/plain; charset=utf-8'') = None
   \<and> calls (wire (snd (WriteString example_air example_lib thirdparty_example minifier_example
        ''h  i'' example_ctx))) = [WWriteHeader 200, WWrite ''h  i'']
   \<and> Written (response written_ctx) \<and> \<not> broken (wire written_ctx)
   \<and> Method (request written_ctx) \<noteq> ''HEAD''
   \<and> m minifier_example (parse_Mediatype thirdparty_example
       (Header_Get (Header (response written_ctx)) ''Content-Type'')) = None
   \<and> fst (WriteBlob example_air example_lib thirdparty_example minifier_example ''h  i''
        written_ctx) = None
   \<and> calls (wire (snd (WriteBlob example_air example_lib thirdparty_example minifier_example
        ''h  i'' written_ctx))) = [WWriteHeader 200, WWrite ''h  i'']"
proof -
  have 1: "m minifier_example (parse_Mediatype thirdparty_example
       (Header_Get (Header (response plain_ctx)) ''Content-Type'')) = None"
    by (simp add: minifier_example_def thirdparty_example_def Init_def newMinifier_def
        Header_Get_def Header_Set_def plain_ctx_def)
  have 2: "m minifier_example (parse_Mediatype thirdparty_example
       (Header_Get (Header (response written_ctx)) ''Content-Type'')) = None"
    by (simp add: minifier_example_def thirdparty_example_def Init_def newMinifier_def
        Header_Get_def Header_Set_def plain_ctx_def written_ctx_def
        responseWriter_WriteHeader_def Let_def)
  have 3: "m minifier_example (parse_Mediatype thirdparty_example ''text/plain; charset=utf-8'')
       = None"
    by (simp add: minifier_example_def thirdparty_example_def Init_def newMinifier_def)
  have 4: "\<not> Written (response plain_ctx)"
    by (simp add: plain_ctx_def example_defs)
  have 5: "Written (response written_ctx) \<and> \<not> broken (wire written_ctx)
       \<and> Method (request written_ctx) \<noteq> ''HEAD'' \<and> calls (wire written_ctx) = [WWriteHeader 200]"
    by (simp add: written_ctx_def plain_ctx_def responseWriter_WriteHeader_def Let_def
        w_WriteHeader_def example_defs)
  have 6: "calls (wire (snd (Response_Write example_air example_lib (Some ''h  i'') plain_ctx)))
       = [WWriteHeader 200, WWrite ''h  i'']"
    by (simp add: plain_ctx_def eval_defs example_defs)
  have 7: "calls (wire (snd (Response_Write example_air example_lib (Some ''h  i'')
       (example_ctx\<lparr>response := (response example_ctx)
          \<lparr>Header := Header_Set ''Content-Type'' ''text/plain; charset=utf-8''
             (Header (response example_ctx))\<rparr>\<rparr>))))
       = [WWriteHeader 200, WWrite ''h  i'']"
    by (simp add: eval_defs example_defs)
  have 8: "m minifier_example (parse_Mediatype thirdparty_example
       (Header_Get (Header (response example_ctx)) ''Content-Type'')) = None"
    by (simp add: minifier_example_def thirdparty_example_def Init_def newMinifier_def
        Header_Get_def example_defs)
  note plain = WriteBlob_passes_unminified [OF 1, where a = example_air and l = example_lib
      and b = "''h  i''"]
  note written = WriteBlob_passes_unminified [OF 2, where a = example_air and l = example_lib
      and b = "''h  i''"]
  note str = WriteBlob_passes_unminified [OF 8, where a = example_air and l = example_lib
      and b = "''h  i''"]
  have 9: "WriteBlob example_air example_lib thirdparty_example minifier_example ''h  i'' plain_ctx
       = Response_Write example_air example_lib (Some ''h  i'') plain_ctx"
    using plain by blast
  have 10: "fst (WriteBlob example_air example_lib thirdparty_example minifier_example ''h  i''
        plain_ctx) = None"
    using plain 4 by blast
  have "WriteString example_air example_lib thirdparty_example minifier_example ''h  i''
        example_ctx
      = Response_Write example_air example_lib (Some ''h  i'')
          (example_ctx\<lparr>response := (response example_ctx)
             \<lparr>Header := Header_Set ''Content-Type'' ''text/plain; charset=utf-8''
                (Header (response example_ctx))\<rparr>\<rparr>)"
    using str 3 by blast
  then have 11: "calls (wire (snd (WriteString example_air example_lib thirdparty_example
        minifier_example ''h  i'' example_ctx))) = [WWriteHeader 200, WWrite ''h  i'']"
    using 7 by simp
  have 12: "fst (WriteBlob example_air example_lib thirdparty_example minifier_example ''h  i''
        written_ctx) = None"
    using written 5 by blast
  have ne: "''h  i'' \<noteq> []"
    by simp
  have "calls (wire (snd (WriteBlob example_air example_lib thirdparty_example
        minifier_example ''h  i'' written_ctx))) = calls (wire written_ctx) @ [WWrite ''h  i'']"
    using written 5 ne by blast
  then have 13: "calls (wire (snd (WriteBlob example_air example_lib thirdparty_example
        minifier_example ''h  i'' written_ctx))) = [WWriteHeader 200, WWrite ''h  i'']"
    using 5 by simp
  have 14: "calls (wire (snd (WriteBlob example_air example_lib thirdparty_example
        minifier_example ''h  i'' plain_ctx))) = [WWriteHeader 200, WWrite ''h  i'']"
    using 9 6 by simp
  from 1 2 3 4 5 9 10 11 12 13 14 show ?thesis
    by blast
qed

subsection \<open>The order of the stages\<close>





subsection \<open>The content length\<close>

lemma ContentLength_writes:
  "\<not> broken (wire c) \<Longrightarrow>
   ContentLength (response (run_calls a (map CallWrite bs) c))
     = ContentLength (response c) + of_nat (length (concat bs))
   \<and> \<not> broken (wire (run_calls a (map CallWrite bs) c))"
  unfolding run_calls_def
proof (induction bs arbitrary: c)
  case Nil
  then show ?case by simp
next
  case (Cons b bs)
  let ?c1 = "snd (responseWriter_Write a b c)"
  have 1: "\<not> broken (wire ?c1)"
    and 2: "ContentLength (response ?c1) = ContentLength (response c) + of_nat (length b)"
    using Cons.prems
    by (simp_all add: responseWriter_Write_def responseWriter_WriteHeader_def w_Write_def
        w_WriteHeader_def Let_def)
  from Cons.IH [OF 1] 2 show ?case by (simp add: algebra_simps)
qed

text \<open>
  C4. What the code does: \<open>ServeHTTP\<close> resets \<open>ContentLength\<close> to \<open>-1\<close> and every
  successful \<open>Write\<close> adds the bytes it wrote, so after body writes of \<open>n\<close> bytes in all
  on a connection that does not fail, the field holds \<open>n - 1\<close>, not \<open>n\<close>.
\<close>

theorem ContentLength_after_reset:
  "\<not> broken rw \<Longrightarrow>
   ContentLength (response (run_calls a (map CallWrite bs) (acquire shr rw r preq pres w)))
     = of_nat (length (concat bs)) - 1"
  using ContentLength_writes [of "acquire shr rw r preq pres w" a bs]
  by (simp add: acquire_def reset_response_def)

theorem ContentLength_after_reset_witness:
  "\<not> broken example_wire
   \<and> sint (ContentLength (response (run_calls example_air [CallWrite ''hello''] example_ctx))) = 4"
  using ContentLength_after_reset [where rw = example_wire and a = example_air
      and bs = "[''hello'']" and shr = SetHTTPRequest_example and r = example_hreq
      and preq = "(1, example_request)" and pres = "(2, example_response)" and w = "[]"]
  by (simp add: example_ctx_def example_wire_def)

subsection \<open>Committing the header\<close>

lemma run_op_Written:
  "Written (response c) \<Longrightarrow> \<not> refused k \<Longrightarrow> Written (response (run_op a k c))"
proof (cases k)
  case (WriterCall x)
  assume "Written (response c)"
  with WriterCall show ?thesis by (simp add: run_call_Written)
next
  case (UpgradeCall u)
  assume "\<not> refused k"
  with UpgradeCall show ?thesis
    by (cases u) (simp_all add: WebSocket_def WebSocket_mark_def)
qed

lemma run_ops_Written:
  "Written (response c) \<Longrightarrow> list_all (\<lambda>k. \<not> refused k) ops \<Longrightarrow>
   Written (response (fold (run_op a) ops c))"
  by (induction ops arbitrary: c) (simp_all add: run_op_Written)

text \<open>
  C5, as stated, fails: in a request whose handler asks for a WebSocket and whose
  handshake is refused, \<open>Written\<close> is set before the handshake, cleared by the
  refusal, and set again when the header of the error response is committed.
\<close>

theorem refused_upgrade_clears_Written:
  "\<not> Written (response example_ctx)
   \<and> Written (response (WebSocket_mark example_ctx))
   \<and> snd (WebSocket refusing_upgrader example_ctx)
        = WebSocket_Error 400 (WebSocket_mark example_ctx)
   \<and> \<not> Written (response (snd (WebSocket refusing_upgrader example_ctx)))
   \<and> Written (response (responseWriter_WriteHeader example_air 400
        (snd (WebSocket refusing_upgrader example_ctx))))"
  by (simp add: WebSocket_def WebSocket_mark_def WebSocket_Error_def refusing_upgrader_def
      example_defs)

text \<open>
  C5, amended. A second \<open>WriteHeader\<close> changes nothing, whatever status it is given,
  and \<open>WriteHeader\<close> on a written response is the identity. Once \<open>Written\<close> is set, no
  sequence of header changes, \<open>WriteHeader\<close> and \<open>Write\<close> calls and upgrades that are
  not refused clears it, so in a request without a refused upgrade the flag goes
  from false to true at most once. On the first commit the flag is set, and both the
  status sent to the underlying writer and the one kept in \<open>Status\<close> are the status
  given, except that a given 200 yields to the status recorded on the Response.
\<close>

theorem Written_commit:
  "responseWriter_WriteHeader a s2 (responseWriter_WriteHeader a s1 c)
     = responseWriter_WriteHeader a s1 c
   \<and> (Written (response c) \<longrightarrow> responseWriter_WriteHeader a s1 c = c)
   \<and> (Written (response c) \<and> list_all (\<lambda>k. \<not> refused k) ops \<longrightarrow>
        Written (response (fold (run_op a) ops c)))
   \<and> (\<not> Written (response c) \<longrightarrow>
        Written (response (responseWriter_WriteHeader a s1 c))
        \<and> Status (response (responseWriter_WriteHeader a s1 c))
            = (if s1 = 200 then Status (response c) else s1)
        \<and> calls (wire (responseWriter_WriteHeader a s1 c))
            = calls (wire c) @ [WWriteHeader (if s1 = 200 then Status (response c) else s1)])"
  by (auto simp: WriteHeader_noop run_ops_Written responseWriter_WriteHeader_def Let_def
      w_WriteHeader_def)

theorem Written_commit_witness:
  "\<not> Written (response not_found_ctx)
   \<and> calls (wire (responseWriter_WriteHeader example_air 200 not_found_ctx)) = [WWriteHeader 404]
   \<and> Status (response (responseWriter_WriteHeader example_air 200 not_found_ctx)) = 404
   \<and> Written (response (responseWriter_WriteHeader example_air 200 not_found_ctx))
   \<and> responseWriter_WriteHeader example_air 500
        (responseWriter_WriteHeader example_air 200 not_found_ctx)
      = responseWriter_WriteHeader example_air 200 not_found_ctx
   \<and> list_all (\<lambda>k. \<not> refused k)
        [WriterCall (CallWriteHeader 500), WriterCall (CallWrite ''x''),
         UpgradeCall (Upgraded (0::nat))]
   \<and> Written (response (fold (run_op example_air)
        [WriterCall (CallWriteHeader 500), WriterCall (CallWrite ''x''),
         UpgradeCall (Upgraded (0::nat))]
        (responseWriter_WriteHeader example_air 200 not_found_ctx)))"
  using Written_commit [where a = example_air and ?s2.0 = 500 and ?s1.0 = 200
      and c = not_found_ctx and ops = "[] :: nat response_op list"]
    Written_commit [where a = example_air and ?s2.0 = 500 and ?s1.0 = 200
      and c = "responseWriter_WriteHeader example_air 200 not_found_ctx"
      and ops = "[WriterCall (CallWriteHeader 500), WriterCall (CallWrite ''x''),
                  UpgradeCall (Upgraded (0::nat))]"]
  by (simp add: not_found_ctx_def example_defs)

subsection \<open>Deferred functions\<close>


subsection \<open>Errors\<close>

text \<open>
  C7, as stated, fails: when a pre-route or a post-route stage returns an error
  without calling its continuation, nothing is written, and the error handler is
  called with the status still 200.
\<close>

theorem short_circuit_error_not_escalated:
  "world (ServeHTTP (example_air\<lparr>Pregases := [deny]\<rparr>) example_lib SetHTTPRequest_example
       example_wire example_hreq (1, example_request) (2, example_response) [])
     = [ErrorHandled (Error ''denied'') 200]
   \<and> world (ServeHTTP (example_air\<lparr>Gases := [deny]\<rparr>) example_lib SetHTTPRequest_example
       example_wire example_hreq (1, example_request) (2, example_response) [])
     = [ErrorHandled (Error ''denied'') 200]
   \<and> Status (response (ServeHTTP (example_air\<lparr>Pregases := [deny]\<rparr>) example_lib
       SetHTTPRequest_example example_wire example_hreq (1, example_request)
       (2, example_response) [])) = 200
   \<and> calls (wire (ServeHTTP (example_air\<lparr>Pregases := [deny]\<rparr>) example_lib
       SetHTTPRequest_example example_wire example_hreq (1, example_request)
       (2, example_response) [])) = []"
  by (simp add: eval_defs deny_def example_defs)

text \<open>
  C7, amended. When the routed handler returns an error and nothing was written, the
  closure around it raises the status to 500 unless it is 400 or more, and returns
  the error. Whenever the chain returns an error, \<open>ServeHTTP\<close> hands that error and
  the state the chain left to the error handler. With no stages at all, an error of
  the routed handler with nothing written therefore reaches the error handler with
  the status raised.
\<close>

theorem error_escalation:
  "(rh c = (Some e, c1) \<and> \<not> Written (response c1) \<longrightarrow>
      routed a l rh c
        = (Some e, c1\<lparr>response := (response c1)
             \<lparr>Status := (if Status (response c1) < 400 then 500 else Status (response c1))\<rparr>\<rparr>))
   \<and> (pregases_stack a l c = (Some e, c2) \<longrightarrow> execute a l c = ErrorHandler a e c2)
   \<and> (Pregases a = [] \<and> Gases a = [] \<and> router a c = (rh, c') \<and> rh c' = (Some e, c1)
        \<and> \<not> Written (response c1) \<longrightarrow>
      execute a l c
        = ErrorHandler a e (c1\<lparr>response := (response c1)
            \<lparr>Status := (if Status (response c1) < 400 then 500 else Status (response c1))\<rparr>\<rparr>))"
proof (intro conjI impI)
  assume "rh c = (Some e, c1) \<and> \<not> Written (response c1)"
  then show "routed a l rh c
        = (Some e, c1\<lparr>response := (response c1)
             \<lparr>Status := (if Status (response c1) < 400 then 500 else Status (response c1))\<rparr>\<rparr>)"
    by (simp add: routed_error)
next
  assume "pregases_stack a l c = (Some e, c2)"
  then show "execute a l c = ErrorHandler a e c2"
    by (simp add: execute_def)
next
  assume *: "Pregases a = [] \<and> Gases a = [] \<and> router a c = (rh, c') \<and> rh c' = (Some e, c1)
        \<and> \<not> Written (response c1)"
  then have "pregases_stack a l c = routed a l rh c'"
    by (simp add: pregases_stack_def gases_stack_def)
  with * show "execute a l c
        = ErrorHandler a e (c1\<lparr>response := (response c1)
            \<lparr>Status := (if Status (response c1) < 400 then 500 else Status (response c1))\<rparr>\<rparr>)"
    by (simp add: execute_def routed_error)
qed

theorem error_escalation_witness:
  "Pregases failing_air = [] \<and> Gases failing_air = []
   \<and> router failing_air example_ctx
       = (logging_handler (Some (Error ''boom'')), example_ctx\<lparr>world := [RouteResolved]\<rparr>)
   \<and> logging_handler (Some (Error ''boom'')) (example_ctx\<lparr>world := [RouteResolved]\<rparr>)
       = (Some (Error ''boom''), failed_ctx)
   \<and> \<not> Written (response failed_ctx)
   \<and> Status (response failed_ctx) = 200
   \<and> routed failing_air example_lib (logging_handler (Some (Error ''boom'')))
        (example_ctx\<lparr>world := [RouteResolved]\<rparr>)
       = (Some (Error ''boom''), failed_ctx\<lparr>response := (response failed_ctx)\<lparr>Status := 500\<rparr>\<rparr>)
   \<and> pregases_stack failing_air example_lib example_ctx
       = (Some (Error ''boom''), failed_ctx\<lparr>response := (response failed_ctx)\<lparr>Status := 500\<rparr>\<rparr>)
   \<and> world (execute failing_air example_lib example_ctx)
       = [RouteResolved, HandlerRan, ErrorHandled (Error ''boom'') 500]"
proof -
  let ?H = "logging_handler (Some (Error ''boom''))"
  let ?c' = "example_ctx\<lparr>world := [RouteResolved]\<rparr>"
  let ?c3 = "failed_ctx\<lparr>response := (response failed_ctx)\<lparr>Status := 500\<rparr>\<rparr>"
  have 1: "Pregases failing_air = [] \<and> Gases failing_air = []"
    by (simp add: failing_air_def example_air_def)
  have 2: "router failing_air example_ctx = (?H, ?c')"
    by (simp add: failing_air_def route_to_def example_ctx_def acquire_def)
  have 3: "?H ?c' = (Some (Error ''boom''), failed_ctx)"
    by (simp add: logging_handler_def failed_ctx_def)
  have 4: "\<not> Written (response failed_ctx) \<and> Status (response failed_ctx) = 200"
    by (simp add: failed_ctx_def example_defs)
  have 5: "pregases_stack failing_air example_lib example_ctx = (Some (Error ''boom''), ?c3)"
    using 1 2 3 4 by (simp add: pregases_stack_def gases_stack_def routed_def)
  have 6: "ErrorHandler failing_air (Error ''boom'') ?c3
      = ?c3\<lparr>world := [RouteResolved, HandlerRan, ErrorHandled (Error ''boom'') 500]\<rparr>"
    by (simp add: failing_air_def example_air_def failed_ctx_def)
  from 1 2 3 4 5 6
    error_escalation [where rh = ?H and c = ?c' and e = "Error ''boom''" and ?c1.0 = failed_ctx
      and a = failing_air and l = example_lib and ?c2.0 = ?c3 and c' = ?c']
    error_escalation [where rh = ?H and c = example_ctx and e = "Error ''boom''"
      and ?c1.0 = failed_ctx and a = failing_air and l = example_lib and ?c2.0 = ?c3 and c' = ?c']
  show ?thesis by simp
qed

subsection \<open>Host policy\<close>

text \<open>
  C8. A host is allowed exactly when debug mode is on, or the whitelist is empty, or
  the whitelist holds, up to letter case, the host part that \<open>net.SplitHostPort\<close>
  finds in the name (the name itself when it finds none). In static-certificate
  mode, for a name that is not allowed (debug mode off, whitelist not empty, name
  not in it) the callback returns no certificate and closes the connection, and its
  error is whatever closing returned; for an allowed name it returns the certificate
  and leaves the connection alone.
\<close>

theorem host_policy:
  "allowedHost l a host
     = (DebugMode a \<or> HostWhitelist a = []
        \<or> (\<exists>v \<in> set (HostWhitelist a).
              toLower v = toLower (if SplitHost l host \<noteq> [] then SplitHost l host else host)))
   \<and> (\<not> DebugMode a \<and> HostWhitelist a \<noteq> []
        \<and> \<not> stringSliceContainsCIly (HostWhitelist a)
              (if SplitHost l name \<noteq> [] then SplitHost l name else name) \<longrightarrow>
      GetCertificate l a cert name cn = ((None, closeErr cn), cn\<lparr>closed := True\<rparr>))
   \<and> (allowedHost l a name \<longrightarrow> GetCertificate l a cert name cn = ((Some cert, None), cn))"
  by (auto simp: allowedHost_def GetCertificate_def Conn_Close_def stringSliceContainsCIly_def
      list_ex_iff Let_def)

theorem host_policy_witness:
  "\<not> DebugMode whitelist_air \<and> HostWhitelist whitelist_air \<noteq> []
   \<and> SplitHost example_lib ''EXAMPLE.COM:443'' = ''EXAMPLE.COM''
   \<and> allowedHost example_lib whitelist_air ''EXAMPLE.COM:443''
   \<and> GetCertificate example_lib whitelist_air (7::nat) ''EXAMPLE.COM:443'' open_conn
       = ((Some 7, None), open_conn)
   \<and> \<not> stringSliceContainsCIly (HostWhitelist whitelist_air) ''evil.org''
   \<and> \<not> allowedHost example_lib whitelist_air ''evil.org''
   \<and> GetCertificate example_lib whitelist_air (7::nat) ''evil.org'' open_conn
       = ((None, None), \<lparr>closed = True, closeErr = None\<rparr>)
   \<and> allowedHost example_lib example_air ''evil.org''"
proof -
  have 1: "\<not> DebugMode whitelist_air \<and> HostWhitelist whitelist_air \<noteq> []"
    by (simp add: whitelist_air_def example_air_def)
  have 2: "SplitHost example_lib ''EXAMPLE.COM:443'' = ''EXAMPLE.COM''"
    and 3: "SplitHost example_lib ''evil.org'' = []"
    by (simp_all add: example_lib_def)
  have 4: "allowedHost example_lib whitelist_air ''EXAMPLE.COM:443''"
    by code_simp
  have 5: "\<not> stringSliceContainsCIly (HostWhitelist whitelist_air) ''evil.org''"
    by code_simp
  have 6: "allowedHost example_lib example_air ''evil.org''"
    by (simp add: allowedHost_def example_air_def)
  have 7: "\<not> allowedHost example_lib whitelist_air ''evil.org''"
    using 1 3 5 by (simp add: allowedHost_def)
  from 1 2 3 4 5 6 7
    host_policy [where l = example_lib and a = whitelist_air and name = "''EXAMPLE.COM:443''"
      and cert = "7::nat" and cn = open_conn]
    host_policy [where l = example_lib and a = whitelist_air and name = "''evil.org''"
      and cert = "7::nat" and cn = open_conn]
  show ?thesis by (simp add: open_conn_def)
qed

subsection \<open>The reset of the pooled pair\<close>

text \<open>
  C9. Whatever the Request and the Response drawn from the pools held, the state in
  which the handler chain starts has: no route parameters, on the same backing
  array; no route parameter names or values; fresh guards; no cached localized
  string; the Request pointing to the Response and the Response to the Request;
  status 200, content length \<open>-1\<close>, and the written, minified and gzipped flags off;
  no deferred functions, on the same backing array. So a request that reuses the
  Request of an earlier one starts with no route parameters.
\<close>

theorem reset_restores_state:
  "(let c = acquire shr rw r (rp, rq) (sp, rs) w :: 'w ctx in
      slice_len (params (request c)) = 0
      \<and> slice_cap (params (request c)) = slice_cap (params (shr r rq))
      \<and> routeParamNames (request c) = None
      \<and> routeParamValues (request c) = None
      \<and> parseRouteParamsOnce (request c) = Once False
      \<and> parseOtherParamsOnce (request c) = Once False
      \<and> localizedString (request c) = None
      \<and> res (request c) = Some sp
      \<and> req (response c) = Some rp
      \<and> Status (response c) = 200
      \<and> ContentLength (response c) = - 1
      \<and> Written (response c) = False
      \<and> Minified (response c) = False
      \<and> Gzipped (response c) = False
      \<and> slice_len (deferredFuncs (response c)) = 0
      \<and> slice_cap (deferredFuncs (response c)) = slice_cap (deferredFuncs rs))
   \<and> elems (params (request
        (acquire shr rw' r' (rp, request (ServeHTTP a l shr rw r preq pres w)) pres' w'))) = []"
  by (simp add: acquire_def reset_request_def reset_response_def slice0_def slice_len_def
      slice_cap_def Let_def)

subsection \<open>Redirect\<close>







end
